theory Spec2Isabelle
  imports Main "HOL-Library.Char_ord" "HOL-Library.List_Lexorder" "HOL-Library.Sublist"
begin

section \<open>Backup utilities of the disk-objectstore container\<close>

text \<open>
  A shallow embedding of \<^verbatim>\<open>disk_objectstore/backup_utils.py\<close>. Python strings are
  lists of characters with code points below 256, ordered as Python orders them
  (lexicographically by code point). Every \<^verbatim>\<open>raise\<close> and the \<^verbatim>\<open>assert\<close> of the source is
  a value of type \<open>error\<close>; a function that can raise returns \<open>error + 'a\<close>.
\<close>

subsection \<open>Exceptions\<close>

datatype error =
    ValueError string
  | BackupError string
  | AssertionError
  | OtherException string

subsection \<open>Strings\<close>

text \<open>\<^verbatim>\<open>str.split(sep)\<close> for a one-character separator: always at least one piece.\<close>

fun str_split :: "char \<Rightarrow> string \<Rightarrow> string list" where
  "str_split c [] = [[]]"
| "str_split c (x # xs) =
     (if x = c then [] # str_split c xs
      else (x # hd (str_split c xs)) # tl (str_split c xs))"

text \<open>\<^verbatim>\<open>sep.join(pieces)\<close>.\<close>

fun str_join :: "string \<Rightarrow> string list \<Rightarrow> string" where
  "str_join sep [] = []"
| "str_join sep [x] = x"
| "str_join sep (x # y # ys) = x @ sep @ str_join sep (y # ys)"

text \<open>
  The line boundaries of \<^verbatim>\<open>str.splitlines()\<close> among the code points below 256:
  LF, VT, FF, CR, FS, GS, RS and NEL; CR LF counts as one boundary.
\<close>

definition is_linebreak :: "char \<Rightarrow> bool" where
  "is_linebreak c \<longleftrightarrow>
     c \<in> set [CHR 0x0A, CHR 0x0B, CHR 0x0C, CHR 0x0D, CHR 0x1C, CHR 0x1D, CHR 0x1E, CHR 0x85]"

fun splitlines_from :: "string \<Rightarrow> string \<Rightarrow> string list" where
  "splitlines_from acc [] = (if acc = [] then [] else [rev acc])"
| "splitlines_from acc [c] =
     (if is_linebreak c then [rev acc] else [rev (c # acc)])"
| "splitlines_from acc (c # d # ds) =
     (if c = CHR 0x0D \<and> d = CHR 0x0A then rev acc # splitlines_from [] ds
      else if is_linebreak c then rev acc # splitlines_from [] (d # ds)
      else splitlines_from (c # acc) (d # ds))"

definition splitlines :: "string \<Rightarrow> string list" where
  "splitlines s = splitlines_from [] s"

text \<open>Truthiness of an optional string: \<^verbatim>\<open>None\<close> and \<^verbatim>\<open>''\<close> are falsy.\<close>

fun truthy :: "string option \<Rightarrow> bool" where
  "truthy None = False"
| "truthy (Some s) = (s \<noteq> [])"

text \<open>A string between single quotes, as the messages of the source print names.\<close>

definition quoted :: "string \<Rightarrow> string" where
  "quoted s = [CHR 0x27] @ s @ [CHR 0x27]"

subsection \<open>Paths\<close>

text \<open>
  \<^verbatim>\<open>pathlib.Path\<close> in its POSIX flavour: a root (empty, one slash, or exactly two
  slashes) and the components that are neither empty nor a single dot. A path object is
  always truthy, so \<^verbatim>\<open>if p\<close> on an optional path tests for \<^verbatim>\<open>None\<close> only.
\<close>

datatype path = PosixPath (root: string) (parts: "string list")

definition splitroot :: "string \<Rightarrow> string" where
  "splitroot s =
     (if take 1 s \<noteq> ''/'' then []
      else if take 1 (drop 1 s) \<noteq> ''/'' \<or> take 1 (drop 2 s) = ''/'' then ''/''
      else ''//'')"

definition Path :: "string \<Rightarrow> path" where
  "Path s = PosixPath (splitroot s)
              (filter (\<lambda>x. x \<noteq> [] \<and> x \<noteq> ''.'') (str_split CHR ''/'' s))"

definition str_path :: "path \<Rightarrow> string" where
  "str_path p =
     (if root p = [] \<and> parts p = [] then ''.''
      else root p @ str_join ''/'' (parts p))"

text \<open>\<^verbatim>\<open>p / s\<close>: an absolute right operand replaces the left one.\<close>

definition joinpath :: "path \<Rightarrow> string \<Rightarrow> path" where
  "joinpath p s =
     (if take 1 s = ''/'' then Path s
      else PosixPath (root p) (parts p @ parts (Path s)))"

text \<open>\<^verbatim>\<open>p.relative_to(other)\<close> raises \<^verbatim>\<open>ValueError\<close> unless \<open>other\<close> is \<open>p\<close> or one of its parents.\<close>

definition relative_to :: "path \<Rightarrow> path \<Rightarrow> error + path" where
  "relative_to p other =
     (if root p = root other \<and> take (length (parts other)) (parts p) = parts other
      then Inr (PosixPath [] (drop (length (parts other)) (parts p)))
      else Inl (ValueError (quoted (str_path p) @ '' is not in the subpath of ''
                            @ quoted (str_path other))))"

definition is_absolute :: "path \<Rightarrow> bool" where
  "is_absolute p \<longleftrightarrow> root p \<noteq> []"

subsection \<open>Parsing the destination\<close>

definition split_remote_and_path :: "string \<Rightarrow> error + (string option \<times> path)" where
  "split_remote_and_path d =
     (let split_dest = str_split CHR '':'' d in
      if length split_dest = 1 then Inr (None, Path d)
      else if length split_dest = 2 then Inr (Some (split_dest ! 0), Path (split_dest ! 1))
      else Inl (ValueError ''Invalid destination format: <remote>:<path>''))"

subsection \<open>The environment\<close>

text \<open>
  What the program does to the outside is recorded as a list of events, oldest first.
  What the outside answers is an oracle that may depend on everything that happened
  before: the exit code and output of a subprocess, whether a file exists, the clock, the
  random suffix, the name of a fresh temporary directory. \<^verbatim>\<open>shutil.which\<close> and
  \<^verbatim>\<open>Path.resolve\<close> read the local file system, taken as fixed during one run;
  \<^verbatim>\<open>resolve\<close> always answers with an absolute path, so the oracle gives its components.
  The \<^verbatim>\<open>logger\<close> argument of the source is the event list itself: each call of
  \<^verbatim>\<open>logger.info\<close>, \<^verbatim>\<open>logger.warning\<close> and \<^verbatim>\<open>logger.debug\<close> appends one event. The debug
  record of a command keeps the command, its exit code and its output as data.
\<close>

datatype level = DEBUG | INFO | WARNING

datatype event =
    Subprocess "string list" int string string
  | LogDebug "string list" int string string
  | Log level string
  | TempDirCreated string
  | TempDirRemoved string
  | SqliteBackup string string

type_synonym world = "event list"

record environment =
  subprocess_run :: "world \<Rightarrow> string list \<Rightarrow> int \<times> string \<times> string"
  shutil_which :: "string \<Rightarrow> string option"
  resolve_parts :: "path \<Rightarrow> string list"
  is_file :: "world \<Rightarrow> path \<Rightarrow> bool"
  utc_timestamp :: "world \<Rightarrow> string"
  random_suffix :: "world \<Rightarrow> string"
  mkdtemp :: "world \<Rightarrow> string"

definition resolve :: "environment \<Rightarrow> path \<Rightarrow> path" where
  "resolve env p = PosixPath ''/'' (resolve_parts env p)"

definition is_exe_found :: "environment \<Rightarrow> string \<Rightarrow> bool" where
  "is_exe_found env exe \<longleftrightarrow> shutil_which env exe \<noteq> None"

subsection \<open>The backup manager\<close>

text \<open>
  The dictionary \<^verbatim>\<open>exes\<close> is an association list in insertion order, looked up with
  \<open>map_of\<close>; a new key goes to the end.
\<close>

record BackupManager =
  dest :: string
  keep :: int
  remote :: "string option"
  path :: path
  exes :: "(string \<times> string) list"

text \<open>How an f-string prints the optional remote host.\<close>

fun str_remote :: "string option \<Rightarrow> string" where
  "str_remote None = ''None''"
| "str_remote (Some s) = s"

text \<open>The argument vector that \<^verbatim>\<open>run_cmd\<close> dispatches: behind \<^verbatim>\<open>ssh\<close> when a remote is set.\<close>

definition run_cmd_args :: "BackupManager \<Rightarrow> string list \<Rightarrow> string list" where
  "run_cmd_args m args =
     (if truthy (remote m) then [''ssh'', str_remote (remote m)] @ args else args)"

definition run_cmd ::
  "environment \<Rightarrow> BackupManager \<Rightarrow> string list \<Rightarrow> world \<Rightarrow> (bool \<times> string) \<times> world" where
  "run_cmd env m args w =
     (let all_args = run_cmd_args m args;
          (returncode, stdout, stderr) = subprocess_run env w all_args;
          w1 = w @ [Subprocess all_args returncode stdout stderr,
                    LogDebug all_args returncode stdout stderr]
      in ((returncode = 0, stdout), w1))"

definition check_if_remote_accessible ::
  "environment \<Rightarrow> BackupManager \<Rightarrow> world \<Rightarrow> (error + unit) \<times> world" where
  "check_if_remote_accessible env m w =
     (let w1 = w @ [Log INFO (''Checking if '' @ quoted (str_remote (remote m)) @ '' is accessible...'')];
          ((success, stdout), w2) = run_cmd env m [''exit''] w1
      in if \<not> success
         then (Inl (BackupError (''Remote '' @ quoted (str_remote (remote m)) @ '' is not accessible!'')), w2)
         else (Inr (), w2 @ [Log INFO (''Success! '' @ quoted (str_remote (remote m)) @ '' is accessible!'')]))"

definition check_path_exists ::
  "environment \<Rightarrow> BackupManager \<Rightarrow> path \<Rightarrow> world \<Rightarrow> bool \<times> world" where
  "check_path_exists env m p w =
     (let ((success, stdout), w1) = run_cmd env m [''['', ''-e'', str_path p, '']''] w
      in (success, w1))"

definition insert_rsync :: "(string \<times> string) list \<Rightarrow> (string \<times> string) list" where
  "insert_rsync ex =
     (if map_of ex ''rsync'' = None then ex @ [(''rsync'', ''rsync'')] else ex)"

fun check_exes :: "environment \<Rightarrow> (string \<times> string) list \<Rightarrow> error + unit" where
  "check_exes env [] = Inr ()"
| "check_exes env ((name, exe) # rest) =
     (if \<not> is_exe_found env exe
      then Inl (ValueError (''Input validation failed: '' @ exe @ '' not accessible.''))
      else check_exes env rest)"

definition BackupManager_init ::
  "environment \<Rightarrow> string \<Rightarrow> int \<Rightarrow> (string \<times> string) list option \<Rightarrow> world
     \<Rightarrow> (error + BackupManager) \<times> world" where
  "BackupManager_init env d k ex w =
     (case split_remote_and_path d of
        Inl e \<Rightarrow> (Inl e, w)
      | Inr (r, p) \<Rightarrow>
          let m = \<lparr>dest = d, keep = k, remote = r, path = p,
                   exes = insert_rsync (case ex of None \<Rightarrow> [] | Some x \<Rightarrow> x)\<rparr>
          in if k < 0
             then (Inl (ValueError ''Input validation failed: keep variable can't be negative!''), w)
             else
               (case (if truthy r then check_if_remote_accessible env m w else (Inr (), w)) of
                  (Inl e, w1) \<Rightarrow> (Inl e, w1)
                | (Inr u, w1) \<Rightarrow>
                    (case (if exes m \<noteq> [] then check_exes env (exes m) else Inr ()) of
                       Inl e \<Rightarrow> (Inl e, w1)
                     | Inr u' \<Rightarrow>
                         let (found, w2) = check_path_exists env m p w1
                         in if \<not> found
                            then
                              (let ((success, stdout), w3) = run_cmd env m [''mkdir'', str_path p] w2
                               in if \<not> success
                                  then (Inl (ValueError (''Input validation failed: Couldn't access/create ''
                                               @ quoted (str_path p) @ ''!'')), w3)
                                  else (Inr m, w3))
                            else (Inr m, w2))))"

subsection \<open>Transfers\<close>

text \<open>The argument vector that \<^verbatim>\<open>call_rsync\<close> builds, after its assertion.\<close>

definition call_rsync_args ::
  "environment \<Rightarrow> BackupManager \<Rightarrow> string \<Rightarrow> path \<Rightarrow> path \<Rightarrow> path option \<Rightarrow> bool \<Rightarrow> bool
     \<Rightarrow> string list option \<Rightarrow> string list" where
  "call_rsync_args env m rsync src dst link_dest src_trailing_slash dest_trailing_slash extra_args =
     [rsync, ''-azh'', ''-vv'', ''--no-whole-file'']
     @ (case extra_args of None \<Rightarrow> [] | Some xs \<Rightarrow> xs)
     @ (case link_dest of
          None \<Rightarrow> []
        | Some l \<Rightarrow>
            [''--link-dest='' @ str_path (if \<not> truthy (remote m) then resolve env l else l)])
     @ [if src_trailing_slash then str_path src @ ''/'' else str_path src]
     @ (let dest_str = (if dest_trailing_slash then str_path dst @ ''/'' else str_path dst)
        in if \<not> truthy (remote m) then [dest_str]
           else [str_remote (remote m) @ '':'' @ dest_str])"

definition call_rsync ::
  "environment \<Rightarrow> BackupManager \<Rightarrow> path \<Rightarrow> path \<Rightarrow> path option \<Rightarrow> bool \<Rightarrow> bool
     \<Rightarrow> string list option \<Rightarrow> world \<Rightarrow> (error + unit) \<times> world" where
  "call_rsync env m src dst link_dest src_trailing_slash dest_trailing_slash extra_args w =
     (case map_of (exes m) ''rsync'' of
        None \<Rightarrow> (Inl AssertionError, w)
      | Some rsync \<Rightarrow>
          let all_args = call_rsync_args env m rsync src dst link_dest
                           src_trailing_slash dest_trailing_slash extra_args;
              (returncode, stdout, stderr) = subprocess_run env w all_args;
              w1 = w @ [Subprocess all_args returncode stdout stderr,
                        LogDebug all_args returncode stdout stderr]
          in if returncode \<noteq> 0
             then (Inl (BackupError (''rsync failed for: '' @ str_path src @ '' to '' @ str_path dst)), w1)
             else (Inr (), w1))"

subsection \<open>Folders of backups\<close>

definition find_args :: "BackupManager \<Rightarrow> string list" where
  "find_args m =
     [''find'', str_path (path m), ''-maxdepth'', ''1'', ''-type'', ''d'',
      ''-name'', ''backup_*_*'', ''-print'']"

definition get_existing_backup_folders ::
  "environment \<Rightarrow> BackupManager \<Rightarrow> world \<Rightarrow> (error + string list) \<times> world" where
  "get_existing_backup_folders env m w =
     (let ((success, stdout), w1) = run_cmd env m (find_args m) w
      in if \<not> success then (Inl (BackupError ''Existing backups determination failed.''), w1)
         else (Inr (splitlines stdout), w1))"

definition get_last_backup_folder ::
  "environment \<Rightarrow> BackupManager \<Rightarrow> world \<Rightarrow> (error + path option) \<times> world" where
  "get_last_backup_folder env m w =
     (case get_existing_backup_folders env m w of
        (Inl e, w1) \<Rightarrow> (Inl e, w1)
      | (Inr existing_backups, w1) \<Rightarrow>
          (Inr (if existing_backups \<noteq> [] then Some (Path (last (sort existing_backups))) else None),
           w1))"

text \<open>The slice \<^verbatim>\<open>xs[:stop]\<close>; a negative \<open>stop\<close> counts from the end.\<close>

definition slice_to :: "'a list \<Rightarrow> int \<Rightarrow> 'a list" where
  "slice_to xs stop =
     (let n = int (length xs);
          j = (if stop < 0 then max 0 (n + stop) else min stop n)
      in take (nat j) xs)"

fun delete_folders :: "environment \<Rightarrow> BackupManager \<Rightarrow> string list \<Rightarrow> world \<Rightarrow> world" where
  "delete_folders env m [] w = w"
| "delete_folders env m (folder # rest) w =
     (let ((success, stdout), w1) = run_cmd env m [''rm'', ''-rf'', folder] w;
          w2 = w1 @ [if success then Log INFO (''Deleted old backup: '' @ folder)
                     else Log WARNING (''Warning: couldn't delete old backup: '' @ folder)]
      in delete_folders env m rest w2)"

definition delete_old_backups ::
  "environment \<Rightarrow> BackupManager \<Rightarrow> world \<Rightarrow> (error + unit) \<times> world" where
  "delete_old_backups env m w =
     (case get_existing_backup_folders env m w of
        (Inl e, w1) \<Rightarrow> (Inl e, w1)
      | (Inr folders, w1) \<Rightarrow>
          let sorted_folders = sort folders;
              to_delete = slice_to sorted_folders (- (keep m + 1))
          in (Inr (), delete_folders env m to_delete w1))"

text \<open>What \<^verbatim>\<open>backup_auto_folders\<close> logs about the previous backup before it produces.\<close>

definition last_folder_message :: "path option \<Rightarrow> string" where
  "last_folder_message last_folder =
     (case last_folder of
        Some l \<Rightarrow> ''Last backup is '' @ quoted (str_path l) @ '', using it for rsync --link-dest.''
      | None \<Rightarrow> ''Couldn't find a previous backup to increment from.'')"

definition backup_auto_folders ::
  "environment \<Rightarrow> BackupManager \<Rightarrow> (path \<Rightarrow> path option \<Rightarrow> world \<Rightarrow> (error + unit) \<times> world)
     \<Rightarrow> world \<Rightarrow> (error + unit) \<times> world" where
  "backup_auto_folders env m backup_func w =
     (let live_folder = joinpath (path m) ''live-backup'' in
      (case get_last_backup_folder env m w of
         (Inl e, w1) \<Rightarrow> (Inl e, w1)
       | (Inr last_folder, w1) \<Rightarrow>
          (let w2 = w1 @ [Log INFO (last_folder_message last_folder)]
           in (case backup_func live_folder last_folder w2 of
                 (Inl e, w3) \<Rightarrow> (Inl e, w3)
               | (Inr u, w3) \<Rightarrow>
                  (let timestamp = utc_timestamp env w3;
                       randstr = random_suffix env w3;
                       folder_name = ''backup_'' @ timestamp @ ''_'' @ randstr;
                       moved = quoted (str_path live_folder) @ '' to ''
                               @ quoted (str_path (joinpath (path m) folder_name));
                       ((success, stdout), w4) =
                          run_cmd env m [''mv'', str_path live_folder,
                                         str_path (joinpath (path m) folder_name)] w3
                   in if \<not> success
                      then (Inl (BackupError (''Failed to move '' @ moved)), w4)
                      else
                        (let w5 = w4 @ [Log INFO (''Backup moved from '' @ moved @ ''.'')];
                             symlink_name = ''last-backup'';
                             ((linked, stdout'), w6) =
                                run_cmd env m [''ln'', ''-sfn'', folder_name,
                                               str_path (joinpath (path m) symlink_name)] w5;
                             w7 = w6 @ [if \<not> linked
                                        then Log WARNING (''Couldn't create symlink '' @ quoted symlink_name
                                               @ ''. Perhaps the filesystem doesn't support it.'')
                                        else Log INFO (''Added symlink '' @ quoted symlink_name @ '' to ''
                                               @ quoted folder_name @ ''.'')]
                         in delete_old_backups env m w7))))))"

subsection \<open>Backing up the container\<close>

text \<open>
  The container class is not part of this file; the four paths that
  \<^verbatim>\<open>backup_container\<close> asks it for are the fields of a record.
\<close>

record Container =
  get_folder :: path
  get_loose_folder :: path
  get_pack_folder :: path
  get_pack_index_path :: path

text \<open>The online backup of the index through \<^verbatim>\<open>sqlite3.Connection.backup\<close>.\<close>

definition sqlite_backup :: "path \<Rightarrow> path \<Rightarrow> world \<Rightarrow> world" where
  "sqlite_backup src dst w = w @ [SqliteBackup (str_path src) (str_path dst)]"

definition backup_container ::
  "environment \<Rightarrow> BackupManager \<Rightarrow> Container \<Rightarrow> path \<Rightarrow> path option \<Rightarrow> world
     \<Rightarrow> (error + unit) \<times> world" where
  "backup_container env m container p prev_backup w =
     (let container_root_path = get_folder container;
          loose_path = get_loose_folder container;
          packs_path = get_pack_folder container;
          sqlite_path = get_pack_index_path container
      in
      (case relative_to loose_path container_root_path of
         Inl e \<Rightarrow> (Inl e, w)
       | Inr loose_path_rel \<Rightarrow>
          (let prev_backup_loose =
                 (case prev_backup of
                    Some pb \<Rightarrow> Some (joinpath pb (str_path loose_path_rel))
                  | None \<Rightarrow> None)
           in
           (case call_rsync env m loose_path p prev_backup_loose False False None w of
              (Inl e, w1) \<Rightarrow> (Inl e, w1)
            | (Inr u1, w1) \<Rightarrow>
               (let w2 = w1 @ [Log INFO (''Transferred '' @ str_path loose_path @ '' to '' @ str_path p)];
                    temp_dir_name = mkdtemp env w2;
                    w3 = w2 @ [TempDirCreated temp_dir_name];
                    sqlite_temp_loc = joinpath (Path temp_dir_name) ''packs.idx'';
                    w4 = sqlite_backup sqlite_path sqlite_temp_loc w3
                in
                if \<not> is_file env w4 sqlite_temp_loc
                then (Inl (BackupError (quoted (str_path sqlite_temp_loc) @ '' failed to be created.'')),
                      w4 @ [TempDirRemoved temp_dir_name])
                else
                  (let w5 = w4 @ [Log INFO (''Dumped the SQLite database to ''
                                            @ str_path sqlite_temp_loc)]
                   in
                   (case call_rsync env m sqlite_temp_loc p prev_backup False False None w5 of
                      (Inl e, w6) \<Rightarrow> (Inl e, w6 @ [TempDirRemoved temp_dir_name])
                    | (Inr u2, w6) \<Rightarrow>
                       (let w7 = w6 @ [Log INFO (''Transferred SQLite database to '' @ str_path p),
                                       TempDirRemoved temp_dir_name]
                        in
                        (case relative_to packs_path container_root_path of
                           Inl e \<Rightarrow> (Inl e, w7)
                         | Inr packs_path_rel \<Rightarrow>
                            (case call_rsync env m packs_path p prev_backup False False None w7 of
                               (Inl e, w8) \<Rightarrow> (Inl e, w8)
                             | (Inr u3, w8) \<Rightarrow>
                                call_rsync env m container_root_path p prev_backup True False
                                  (Some [''--exclude'', str_path loose_path_rel,
                                         ''--exclude'', ''packs.idx'',
                                         ''--exclude'', str_path packs_path_rel])
                                  (w8 @ [Log INFO (''Transferred '' @ str_path packs_path
                                                   @ '' to '' @ str_path p)])))))))))))"

subsection \<open>Reading the event list\<close>

text \<open>The commands that were run, in order.\<close>

fun commands :: "world \<Rightarrow> string list list" where
  "commands [] = []"
| "commands (Subprocess argv returncode out err # w) = argv # commands w"
| "commands (e # w) = commands w"

text \<open>
  The steps of a container backup: each command that was run and each online backup of
  the index, in order.
\<close>

datatype step = Transfer "string list" | IndexSnapshot string string

fun steps :: "world \<Rightarrow> step list" where
  "steps [] = []"
| "steps (Subprocess argv returncode out err # w) = Transfer argv # steps w"
| "steps (SqliteBackup src dst # w) = IndexSnapshot src dst # steps w"
| "steps (e # w) = steps w"

text \<open>The invariant the specification states for the parsed remote host.\<close>

definition remote_absent_or_nonempty :: "string option \<Rightarrow> bool" where
  "remote_absent_or_nonempty r \<longleftrightarrow> (case r of None \<Rightarrow> True | Some h \<Rightarrow> h \<noteq> [])"

text \<open>
  A destination is reachable when the checks of the constructor pass: the remote host,
  if one is set, answers the test command, and the destination path exists or
  \<^verbatim>\<open>mkdir\<close> creates it.
\<close>

definition destination_reachable :: "environment \<Rightarrow> BackupManager \<Rightarrow> world \<Rightarrow> bool" where
  "destination_reachable env m w \<longleftrightarrow>
     (let (accessible, w1) =
            (if truthy (remote m) then check_if_remote_accessible env m w else (Inr (), w));
          (found, w2) = check_path_exists env m (path m) w1
      in accessible = Inr () \<and>
         (found \<or> fst (fst (run_cmd env m [''mkdir'', str_path (path m)] w2))))"

definition executables_found :: "environment \<Rightarrow> BackupManager \<Rightarrow> bool" where
  "executables_found env m \<longleftrightarrow> list_all (\<lambda>(name, exe). is_exe_found env exe) (exes m)"

subsection \<open>Example environments\<close>

text \<open>Every command exits with 0 and prints nothing; every executable is found.\<close>

definition env_quiet :: environment where
  "env_quiet =
     \<lparr>subprocess_run = (\<lambda>w args. (0, [], [])),
      shutil_which = (\<lambda>exe. Some (''/usr/bin/'' @ exe)),
      resolve_parts = (\<lambda>p. ''home'' # parts p),
      is_file = (\<lambda>w p. True),
      utc_timestamp = (\<lambda>w. ''20240101120000''),
      random_suffix = (\<lambda>w. ''k3x9''),
      mkdtemp = (\<lambda>w. ''/tmp/tmpq1'')\<rparr>"

text \<open>As \<open>env_quiet\<close>, but no executable is found on the search path.\<close>

definition env_no_exe :: environment where
  "env_no_exe = env_quiet\<lparr>shutil_which := (\<lambda>exe. None)\<rparr>"

text \<open>As \<open>env_quiet\<close>, but \<^verbatim>\<open>ln\<close> exits with 1.\<close>

definition env_no_symlink :: environment where
  "env_no_symlink =
     env_quiet\<lparr>subprocess_run := (\<lambda>w args. if take 1 args = [''ln''] then (1, [], []) else (0, [], []))\<rparr>"

text \<open>As \<open>env_quiet\<close>, but \<^verbatim>\<open>find\<close> prints five backup folders, not in order.\<close>

definition five_folders :: "string list" where
  "five_folders =
     [''backups/backup_00000000000003_cc'',
      ''backups/backup_00000000000001_aa'',
      ''backups/backup_00000000000005_ee'',
      ''backups/backup_00000000000002_bb'',
      ''backups/backup_00000000000004_dd'']"

definition env_five :: environment where
  "env_five =
     env_quiet\<lparr>subprocess_run :=
       (\<lambda>w args. if take 1 args = [''find'']
                  then (0, concat (map (\<lambda>l. l @ [CHR 0x0A]) five_folders), [])
                  else (0, [], []))\<rparr>"

definition local_manager :: "int \<Rightarrow> BackupManager" where
  "local_manager k =
     \<lparr>dest = ''backups'', keep = k, remote = None, path = Path ''backups'',
      exes = [(''rsync'', ''rsync'')]\<rparr>"

definition remote_manager :: "int \<Rightarrow> BackupManager" where
  "remote_manager k =
     \<lparr>dest = ''host:/srv/backups'', keep = k, remote = Some ''host'', path = Path ''/srv/backups'',
      exes = [(''rsync'', ''rsync'')]\<rparr>"

definition example_container :: Container where
  "example_container =
     \<lparr>get_folder = Path ''/data/container'',
      get_loose_folder = Path ''/data/container/loose'',
      get_pack_folder = Path ''/data/container/packs'',
      get_pack_index_path = Path ''/data/container/packs.idx''\<rparr>"

section \<open>Properties\<close>

subsection \<open>Auxiliary facts\<close>

lemma str_split_ne: "str_split c s \<noteq> []"
  by (induction s) auto

lemma length_str_split: "length (str_split c s) = Suc (count_list s c)"
  by (induction s) (auto simp: str_split_ne)

lemma str_split_notin: "c \<notin> set s \<Longrightarrow> str_split c s = [s]"
  by (induction s) auto

lemma str_split_append: "c \<notin> set h \<Longrightarrow> str_split c (h @ c # t) = h # str_split c t"
  by (induction h) auto

lemma commands_append: "commands (a @ b) = commands a @ commands b"
  by (induction a rule: commands.induct) auto

lemma steps_append: "steps (a @ b) = steps a @ steps b"
  by (induction a rule: steps.induct) auto

lemma run_cmd_events:
  "\<exists>rc out err. run_cmd env m args w =
     ((rc = 0, out), w @ [Subprocess (run_cmd_args m args) rc out err,
                         LogDebug (run_cmd_args m args) rc out err])"
  by (simp add: run_cmd_def Let_def split: prod.splits)

lemma slice_to_neg: "0 \<le> k \<Longrightarrow> slice_to xs (- (k + 1)) = take (length xs - nat (k + 1)) xs"
proof -
  assume k: "0 \<le> k"
  show ?thesis
  proof (cases "int (length xs) + (- (k + 1)) < 0")
    case True
    then have "length xs - nat (k + 1) = 0" using k by linarith
    with True k show ?thesis by (simp add: slice_to_def Let_def max_def)
  next
    case False
    then have "nat (int (length xs) + (- (k + 1))) = length xs - nat (k + 1)"
      using k by linarith
    with False k show ?thesis by (simp add: slice_to_def Let_def max_def)
  qed
qed

lemma last_notin_take:
  assumes "distinct xs" and "n < length xs"
  shows "last xs \<notin> set (take n xs)"
proof
  assume "last xs \<in> set (take n xs)"
  then obtain i where i: "i < length (take n xs)" and e: "take n xs ! i = last xs"
    by (auto simp: in_set_conv_nth)
  from i assms have il: "i < n" "i < length xs" by auto
  from assms have ne: "xs \<noteq> []" by auto
  have "xs ! i = xs ! (length xs - 1)"
    using e il ne by (simp add: last_conv_nth)
  with assms il have "i = length xs - 1"
    by (simp add: nth_eq_iff_index_eq)
  with il assms show False by simp
qed

lemma last_sorted_Max:
  assumes "sorted xs" and "xs \<noteq> []"
  shows "last xs = Max (set xs)"
proof (rule sym, rule Max_eqI)
  show "finite (set xs)" by simp
next
  fix y assume "y \<in> set xs"
  then obtain i where i: "i < length xs" and y: "xs ! i = y" by (auto simp: in_set_conv_nth)
  have "xs ! i \<le> xs ! (length xs - 1)"
    using assms i by (intro sorted_nth_mono) auto
  with y assms show "y \<le> last xs" by (simp add: last_conv_nth)
next
  show "last xs \<in> set xs" using assms by simp
qed

lemma last_sort_Max:
  assumes "xs \<noteq> []"
  shows "last (sort xs) = Max (set xs)"
proof -
  have "length (sort xs) = length xs" by simp
  with assms have "sort xs \<noteq> []" by (metis length_0_conv)
  then show ?thesis using last_sorted_Max [of "sort xs"] by simp
qed

subsection \<open>Parsing the destination\<close>

text \<open>
  Claim C4. A destination string without a colon parses to no remote host and the whole
  string as the path; a string with exactly one colon parses to the text before the colon
  as the remote host and the text after it as the path; a string with two or more colons
  raises \<^verbatim>\<open>ValueError\<close>.
\<close>

theorem split_remote_and_path_cases:
  "(count_list d CHR '':'' = 0 \<longrightarrow> split_remote_and_path d = Inr (None, Path d)) \<and>
   (count_list d CHR '':'' = 1 \<longrightarrow>
      (\<exists>h t. d = h @ CHR '':'' # t \<and> CHR '':'' \<notin> set h \<and> CHR '':'' \<notin> set t \<and>
             split_remote_and_path d = Inr (Some h, Path t))) \<and>
   (2 \<le> count_list d CHR '':'' \<longrightarrow>
      split_remote_and_path d = Inl (ValueError ''Invalid destination format: <remote>:<path>''))"
proof (intro conjI impI)
  assume "count_list d CHR '':'' = 0"
  then show "split_remote_and_path d = Inr (None, Path d)"
    by (simp add: split_remote_and_path_def length_str_split)
next
  assume one: "count_list d CHR '':'' = 1"
  then obtain h t where d: "d = h @ CHR '':'' # t" and h: "CHR '':'' \<notin> set h"
    and t: "count_list t CHR '':'' = 0"
    using count_list_Suc_split_first [of d "CHR '':''" 0] by auto
  from t have t': "CHR '':'' \<notin> set t" by (simp add: count_list_0_iff)
  have "str_split CHR '':'' d = [h, t]"
    using d h t' by (simp add: str_split_append str_split_notin)
  then have "split_remote_and_path d = Inr (Some h, Path t)"
    by (simp add: split_remote_and_path_def)
  with d h t' show "\<exists>h t. d = h @ CHR '':'' # t \<and> CHR '':'' \<notin> set h \<and> CHR '':'' \<notin> set t \<and>
             split_remote_and_path d = Inr (Some h, Path t)" by blast
next
  assume "2 \<le> count_list d CHR '':''"
  then show "split_remote_and_path d = Inl (ValueError ''Invalid destination format: <remote>:<path>'')"
    by (simp add: split_remote_and_path_def length_str_split)
qed

theorem split_remote_and_path_cases_witness:
  "split_remote_and_path ''backups/store'' = Inr (None, Path ''backups/store'') \<and>
   split_remote_and_path ''host:/srv/backups'' = Inr (Some ''host'', Path ''/srv/backups'') \<and>
   split_remote_and_path ''a:b:c'' = Inl (ValueError ''Invalid destination format: <remote>:<path>'')"
  using split_remote_and_path_cases [of "''backups/store''"]
        split_remote_and_path_cases [of "''host:/srv/backups''"]
        split_remote_and_path_cases [of "''a:b:c''"]
  by (simp add: append_eq_Cons_conv Cons_eq_append_conv)

end
